theory Spec2Isabelle
  imports Main
begin

section \<open>Strings\<close>

text \<open>
  A Python \<open>str\<close> is modelled as a \<open>string\<close>, a list of 8-bit characters read as the
  code points below 256.  The three string methods the bot relies on are given for
  that range: \<open>str.isspace\<close> holds of the code points 9 to 13, 28 to 32, 133 and 160,
  and \<open>str.lower\<close> moves A to Z and the upper-case letters of Latin-1 (192 to 222
  without 215) up by 32.
\<close>

definition isspace :: "char \<Rightarrow> bool" where
  "isspace c = (c \<in> set [CHR 0x09, CHR 0x0A, CHR 0x0B, CHR 0x0C, CHR 0x0D,
                          CHR 0x1C, CHR 0x1D, CHR 0x1E, CHR 0x1F, CHR 0x20,
                          CHR 0x85, CHR 0xA0])"

definition lower_char :: "char \<Rightarrow> char" where
  "lower_char c =
     (let n = (of_char c :: nat)
      in if 65 \<le> n \<and> n \<le> 90 then char_of (n + 32)
         else if 192 \<le> n \<and> n \<le> 222 \<and> n \<noteq> 215 then char_of (n + 32)
         else c)"

definition lower :: "string \<Rightarrow> string" where
  "lower s = map lower_char s"

text \<open>\<open>s.strip()\<close>: leading and trailing whitespace removed.\<close>

definition strip :: "string \<Rightarrow> string" where
  "strip s = rev (dropWhile isspace (rev (dropWhile isspace s)))"

text \<open>\<open>s.startswith(p)\<close>.\<close>

definition startswith :: "string \<Rightarrow> string \<Rightarrow> bool" where
  "startswith s p = (take (length p) s = p)"

text \<open>
  \<open>s.split()\<close> with no separator: the maximal runs of non-whitespace characters, in
  order.  \<open>split_from cur s\<close> scans \<open>s\<close> with the token under construction in \<open>cur\<close>.
\<close>

fun split_from :: "string \<Rightarrow> string \<Rightarrow> string list" where
  "split_from cur [] = (if cur = [] then [] else [cur])"
| "split_from cur (c # cs) =
     (if isspace c
      then (if cur = [] then split_from [] cs else cur # split_from [] cs)
      else split_from (cur @ [c]) cs)"

definition split :: "string \<Rightarrow> string list" where
  "split s = split_from [] s"

text \<open>
  \<open>s.replace(old, new)\<close>: every occurrence of \<open>old\<close>, found from the left without
  overlap, is replaced; an empty \<open>old\<close> matches before each character and at the end.
\<close>

function replace :: "string \<Rightarrow> string \<Rightarrow> string \<Rightarrow> string" where
  "replace [] old new = (if old = [] then new else [])"
| "replace (c # cs) old new =
     (if old = [] then new @ c # replace cs old new
      else if startswith (c # cs) old
           then new @ replace (drop (length old) (c # cs)) old new
           else c # replace cs old new)"
  by pat_completeness auto
termination
  by (relation "measure (\<lambda>(s, old, new). length s)") auto

text \<open>\<open>sub in s\<close>: the string \<open>sub\<close> occurs somewhere in \<open>s\<close>.\<close>

fun contains :: "string \<Rightarrow> string \<Rightarrow> bool" where
  "contains [] sub = (sub = [])"
| "contains (c # cs) sub = (startswith (c # cs) sub \<or> contains cs sub)"

section \<open>Configuration\<close>

definition MUMBLE_USERNAME :: string where
  "MUMBLE_USERNAME = ''ChatBot''"

definition MUMBLE_CHANNEL :: string where
  "MUMBLE_CHANNEL = ''Root''"

definition LLAMA_API_URL :: string where
  "LLAMA_API_URL = ''http://192.168.42.254:8080/completion''"

definition INSTRUCTIONS :: string where
  "INSTRUCTIONS =
     ''\<newline>'' @
     ''You are a Mumble Server Chatbot. Your task is to assist users and manage the Mumble server. \<newline>'' @
     ''You can perform the following actions:\<newline>'' @
     ''- Respond to user messages in a friendly and helpful manner.\<newline>'' @
     ''- Execute server commands when requested. Available commands:\<newline>'' @
     ''  - /move <username> <channel>: Move a user to a specific channel.\<newline>'' @
     ''  - /mute <username>: Mute a user.\<newline>'' @
     ''  - /unmute <username>: Unmute a user.\<newline>'' @
     ''  - /kick <username>: Kick a user from the server.\<newline>'' @
     ''  - /help: List available commands.\<newline>'' @
     ''If a user requests a command, respond with the command in the format: COMMAND:<command>.\<newline>'' @
     ''Example: COMMAND:/move John General\<newline>''"

section \<open>Exceptions, log and the calls made to the outside\<close>

text \<open>
  The exceptions of the callbacks are all subclasses of Python's \<open>Exception\<close>; each
  carries the text that \<open>str(e)\<close> gives.  \<open>RequestException\<close> stands for the whole
  class \<open>requests.exceptions.RequestException\<close>, \<open>OtherException\<close> for any subclass of
  \<open>Exception\<close> not named here (the errors of the chat library among them).
\<close>

datatype exn =
    RequestException string
  | AttributeError string
  | IndexError string
  | NameError string
  | OtherException string

fun str_exn :: "exn \<Rightarrow> string" where
  "str_exn (RequestException m) = m"
| "str_exn (AttributeError m) = m"
| "str_exn (IndexError m) = m"
| "str_exn (NameError m) = m"
| "str_exn (OtherException m) = m"

datatype 'a res = Return 'a | Raise exn

text \<open>The text of an \<open>AttributeError\<close>.\<close>

definition no_attribute :: "string \<Rightarrow> string \<Rightarrow> string" where
  "no_attribute ty attr =
     [CHR 0x27] @ ty @ [CHR 0x27] @ '' object has no attribute '' @ [CHR 0x27] @ attr @ [CHR 0x27]"

datatype level = INFO | WARNING | ERROR

text \<open>The request body of \<open>generate_response\<close>; the float 0.7 is kept as its literal.\<close>

record payload =
  prompt :: string
  temperature :: string
  max_tokens :: nat

text \<open>
  The calls that act on the outside world.  A user handle and a channel handle are
  natural numbers; a channel handle is the channel's \<open>channel_id\<close>.  \<open>MumbleCreate\<close> is
  the constructor call \<open>Mumble(...)\<close>; \<open>MumbleStart i\<close> stands for registering the
  callback, \<open>start()\<close> and \<open>is_ready()\<close> on session \<open>i\<close>, \<open>MumbleStop i\<close> for \<open>stop()\<close> on it,
  \<open>TimeSleep n\<close> for \<open>time.sleep(n)\<close>.
\<close>

datatype call =
    UserMove nat nat
  | UserMute nat
  | UserUnmute nat
  | UserKick nat
  | SendTextMessage nat string
  | RequestsPost string payload nat
  | MumbleCreate
  | MumbleStart nat
  | MumbleStop nat
  | TimeSleep nat

record world =
  calls :: "call list"
  logs :: "(level \<times> string) list"

definition logging :: "level \<Rightarrow> string \<Rightarrow> 'a world_scheme \<Rightarrow> 'a world_scheme" where
  "logging lv m w = w\<lparr>logs := logs w @ [(lv, m)]\<rparr>"

definition calling :: "call \<Rightarrow> 'a world_scheme \<Rightarrow> 'a world_scheme" where
  "calling c w = w\<lparr>calls := calls w @ [c]\<rparr>"

text \<open>
  The chat library's session object (the global \<open>mumble\<close>) as the callbacks see it.
  A lookup returns a handle, \<open>None\<close>, or raises; a handle that is returned is truthy.
  An operation on a handle returns (\<open>None\<close>) or raises (\<open>Some e\<close>).
\<close>

record session =
  users_find_by_name :: "string \<Rightarrow> exn + nat option"
  channels_find_by_name :: "string \<Rightarrow> exn + nat option"
  user_move :: "nat \<Rightarrow> nat \<Rightarrow> exn option"
  user_mute :: "nat \<Rightarrow> exn option"
  user_unmute :: "nat \<Rightarrow> exn option"
  user_kick :: "nat \<Rightarrow> exn option"
  send_text_message :: "nat \<Rightarrow> string \<Rightarrow> exn option"

section \<open>execute_command\<close>

text \<open>The branch of \<open>/move\<close> (source lines 67 to 74).\<close>

definition move_branch :: "session \<Rightarrow> string \<Rightarrow> string \<Rightarrow> world \<Rightarrow> unit res \<times> world" where
  "move_branch mumble username channel w =
     (case users_find_by_name mumble username of
        Inl e \<Rightarrow> (Raise e, w)
      | Inr user \<Rightarrow>
          (case channels_find_by_name mumble channel of
             Inl e \<Rightarrow> (Raise e, w)
           | Inr target_channel \<Rightarrow>
               (case (user, target_channel) of
                  (Some u, Some c) \<Rightarrow>
                    (let w1 = calling (UserMove u c) w
                     in case user_move mumble u c of
                          Some e \<Rightarrow> (Raise e, w1)
                        | None \<Rightarrow>
                            (Return (),
                             logging INFO (''Moved '' @ username @ '' to '' @ channel @ ''.'') w1))
                | _ \<Rightarrow>
                    (Return (),
                     logging ERROR
                       (''User '' @ username @ '' or channel '' @ channel @ '' not found.'') w))))"

text \<open>The branches of \<open>/mute\<close>, \<open>/unmute\<close> and \<open>/kick\<close> (source lines 77 to 101).\<close>

definition mute_branch :: "session \<Rightarrow> string \<Rightarrow> world \<Rightarrow> unit res \<times> world" where
  "mute_branch mumble username w =
     (case users_find_by_name mumble username of
        Inl e \<Rightarrow> (Raise e, w)
      | Inr (Some u) \<Rightarrow>
          (let w1 = calling (UserMute u) w
           in case user_mute mumble u of
                Some e \<Rightarrow> (Raise e, w1)
              | None \<Rightarrow> (Return (), logging INFO (''Muted '' @ username @ ''.'') w1))
      | Inr None \<Rightarrow> (Return (), logging ERROR (''User '' @ username @ '' not found.'') w))"

definition unmute_branch :: "session \<Rightarrow> string \<Rightarrow> world \<Rightarrow> unit res \<times> world" where
  "unmute_branch mumble username w =
     (case users_find_by_name mumble username of
        Inl e \<Rightarrow> (Raise e, w)
      | Inr (Some u) \<Rightarrow>
          (let w1 = calling (UserUnmute u) w
           in case user_unmute mumble u of
                Some e \<Rightarrow> (Raise e, w1)
              | None \<Rightarrow> (Return (), logging INFO (''Unmuted '' @ username @ ''.'') w1))
      | Inr None \<Rightarrow> (Return (), logging ERROR (''User '' @ username @ '' not found.'') w))"

definition kick_branch :: "session \<Rightarrow> string \<Rightarrow> world \<Rightarrow> unit res \<times> world" where
  "kick_branch mumble username w =
     (case users_find_by_name mumble username of
        Inl e \<Rightarrow> (Raise e, w)
      | Inr (Some u) \<Rightarrow>
          (let w1 = calling (UserKick u) w
           in case user_kick mumble u of
                Some e \<Rightarrow> (Raise e, w1)
              | None \<Rightarrow> (Return (), logging INFO (''Kicked '' @ username @ ''.'') w1))
      | Inr None \<Rightarrow> (Return (), logging ERROR (''User '' @ username @ '' not found.'') w))"

text \<open>
  The branch of \<open>/help\<close> (source lines 104 to 113).  When the lookup of the home
  channel returns \<open>None\<close>, the method call on it raises \<open>AttributeError\<close>.
\<close>

definition help_message :: string where
  "help_message =
     ''\<newline>'' @
     ''                Available commands:\<newline>'' @
     ''                - /move <username> <channel>: Move a user to a specific channel.\<newline>'' @
     ''                - /mute <username>: Mute a user.\<newline>'' @
     ''                - /unmute <username>: Unmute a user.\<newline>'' @
     ''                - /kick <username>: Kick a user from the server.\<newline>'' @
     ''                - /help: List available commands.\<newline>'' @
     ''                ''"

text \<open>
  \<open>mumble.channels.find_by_name(MUMBLE_CHANNEL).send_text_message(text)\<close>, the
  expression of source lines 112 and 145.
\<close>

definition send_to_home :: "session \<Rightarrow> string \<Rightarrow> world \<Rightarrow> unit res \<times> world" where
  "send_to_home mumble text w =
     (case channels_find_by_name mumble MUMBLE_CHANNEL of
        Inl e \<Rightarrow> (Raise e, w)
      | Inr None \<Rightarrow>
          (Raise (AttributeError (no_attribute ''NoneType'' ''send_text_message'')), w)
      | Inr (Some c) \<Rightarrow>
          (let w1 = calling (SendTextMessage c text) w
           in case send_text_message mumble c text of
                Some e \<Rightarrow> (Raise e, w1)
              | None \<Rightarrow> (Return (), w1)))"

definition help_branch :: "session \<Rightarrow> world \<Rightarrow> unit res \<times> world" where
  "help_branch mumble w =
     (case send_to_home mumble help_message w of
        (Raise e, w1) \<Rightarrow> (Raise e, w1)
      | (Return u, w1) \<Rightarrow> (Return (), logging INFO ''Displayed help message.'' w1))"

text \<open>The body of the \<open>try\<close> (source lines 61 to 116).\<close>

definition execute_command_try :: "session \<Rightarrow> string \<Rightarrow> world \<Rightarrow> unit res \<times> world" where
  "execute_command_try mumble command w =
     (if startswith command ''COMMAND:''
      then
        (let command' = strip (replace command ''COMMAND:'' '''');
             parts = split command'
         in case parts of
              [] \<Rightarrow> (Raise (IndexError ''list index out of range''), w)
            | p # _ \<Rightarrow>
                (let action = lower p
                 in if action = ''/move'' \<and> length parts = 3
                    then move_branch mumble (parts ! 1) (parts ! 2) w
                    else if action = ''/mute'' \<and> length parts = 2
                    then mute_branch mumble (parts ! 1) w
                    else if action = ''/unmute'' \<and> length parts = 2
                    then unmute_branch mumble (parts ! 1) w
                    else if action = ''/kick'' \<and> length parts = 2
                    then kick_branch mumble (parts ! 1) w
                    else if action = ''/help''
                    then help_branch mumble w
                    else (Return (), logging ERROR (''Invalid command: '' @ command') w)))
      else (Return (), w))"

text \<open>
  \<open>execute_command\<close>: the \<open>try\<close> with its handler \<open>except Exception\<close>, which catches
  every exception of the callbacks and logs it (source lines 118 and 119).
\<close>

definition execute_command :: "session \<Rightarrow> string \<Rightarrow> world \<Rightarrow> unit res \<times> world" where
  "execute_command mumble command w =
     (case execute_command_try mumble command w of
        (Raise e, w1) \<Rightarrow>
          (Return (), logging ERROR (''Failed to execute command: '' @ str_exn e) w1)
      | (Return u, w1) \<Rightarrow> (Return (), w1))"

section \<open>generate_response\<close>

text \<open>
  What \<open>response.json()\<close> can return: a parsed JSON document.  An object is the list of
  its items (the keys of a dict are distinct); numbers are restricted to integers.
\<close>

datatype json =
    JNull
  | JBool bool
  | JNumber int
  | JString string
  | JArray "json list"
  | JObject "(string \<times> json) list"

text \<open>Python's truth value of a parsed document, as the conditional expression tests it.\<close>

fun truthy :: "json \<Rightarrow> bool" where
  "truthy JNull = False"
| "truthy (JBool b) = b"
| "truthy (JNumber n) = (n \<noteq> 0)"
| "truthy (JString s) = (s \<noteq> [])"
| "truthy (JArray xs) = (xs \<noteq> [])"
| "truthy (JObject kvs) = (kvs \<noteq> [])"

fun type_name :: "json \<Rightarrow> string" where
  "type_name JNull = ''NoneType''"
| "type_name (JBool b) = ''bool''"
| "type_name (JNumber n) = ''int''"
| "type_name (JString s) = ''str''"
| "type_name (JArray xs) = ''list''"
| "type_name (JObject kvs) = ''dict''"

text \<open>\<open>j.get(key, default)\<close>: only a dict has the method.\<close>

fun json_get :: "json \<Rightarrow> string \<Rightarrow> json \<Rightarrow> exn + json" where
  "json_get (JObject kvs) key dflt =
     Inr (case map_of kvs key of Some v \<Rightarrow> v | None \<Rightarrow> dflt)"
| "json_get j key dflt = Inl (AttributeError (no_attribute (type_name j) ''get''))"

text \<open>\<open>v.strip()\<close>: only a string has the method.\<close>

fun json_strip :: "json \<Rightarrow> exn + string" where
  "json_strip (JString s) = Inr (strip s)"
| "json_strip v = Inl (AttributeError (no_attribute (type_name v) ''strip''))"

text \<open>
  The response object of the HTTP library: what \<open>raise_for_status()\<close> raises, if
  anything, and what \<open>json()\<close> returns or raises.  The library itself is the function
  \<open>post\<close> from the URL, the request body and the timeout to a response or an exception.
\<close>

record response =
  raise_for_status :: "exn option"
  response_json :: "exn + json"

type_synonym requests = "string \<Rightarrow> payload \<Rightarrow> nat \<Rightarrow> exn + response"

text \<open>The body of the \<open>try\<close> (source lines 49 to 51).\<close>

definition generate_response_try ::
  "requests \<Rightarrow> payload \<Rightarrow> world \<Rightarrow> string option res \<times> world" where
  "generate_response_try post body w =
     (let w1 = calling (RequestsPost LLAMA_API_URL body 120) w
      in case post LLAMA_API_URL body 120 of
           Inl e \<Rightarrow> (Raise e, w1)
         | Inr response \<Rightarrow>
             (case raise_for_status response of
                Some e \<Rightarrow> (Raise e, w1)
              | None \<Rightarrow>
                  (case response_json response of
                     Inl e \<Rightarrow> (Raise e, w1)
                   | Inr j \<Rightarrow>
                       if truthy j
                       then (case json_get j ''content'' (JString []) of
                               Inl e \<Rightarrow> (Raise e, w1)
                             | Inr v \<Rightarrow>
                                 (case json_strip v of
                                    Inl e \<Rightarrow> (Raise e, w1)
                                  | Inr s \<Rightarrow> (Return (Some s), w1)))
                       else (Return None, w1))))"

text \<open>
  \<open>generate_response\<close>: the handler is \<open>except requests.exceptions.RequestException\<close>,
  so any other exception leaves the function (source lines 52 to 54).
\<close>

definition generate_response ::
  "requests \<Rightarrow> string \<Rightarrow> world \<Rightarrow> string option res \<times> world" where
  "generate_response post prompt' w =
     (let body = \<lparr>prompt = INSTRUCTIONS @ '' '' @ prompt',
                  temperature = ''0.7'', max_tokens = 150\<rparr>
      in case generate_response_try post body w of
           (Raise (RequestException m), w1) \<Rightarrow>
             (Return None, logging ERROR (''Failed to generate response: '' @ m) w1)
         | r \<Rightarrow> r)"

section \<open>on_message_received\<close>

record text_message =
  actor :: string
  message :: string

text \<open>\<open>if response:\<close> holds of a string that is not empty; \<open>None\<close> and \<open>""\<close> are falsy.\<close>

definition on_message_received ::
  "session \<Rightarrow> requests \<Rightarrow> text_message \<Rightarrow> world \<Rightarrow> unit res \<times> world" where
  "on_message_received mumble post m w =
     (let user = actor m;
          text = strip (message m)
      in if user = MUMBLE_USERNAME then (Return (), w)
         else
           (let w1 = logging INFO (''Received message from '' @ user @ '': '' @ text) w
            in case generate_response post text w1 of
                 (Raise e, w2) \<Rightarrow> (Raise e, w2)
               | (Return response, w2) \<Rightarrow>
                   (if response \<noteq> None \<and> response \<noteq> Some []
                    then
                      (let r = the response;
                           w3 = logging INFO (''Generated response: '' @ r) w2
                       in if startswith r ''COMMAND:''
                          then execute_command mumble r w3
                          else
                            (case send_to_home mumble r w3 of
                               (Raise e, w4) \<Rightarrow>
                                 (Return (),
                                  logging ERROR
                                    (''Failed to send message to Mumble: '' @ str_exn e) w4)
                             | (Return u, w4) \<Rightarrow> (Return (), w4)))
                    else
                      (Return (),
                       logging WARNING ''No response generated or API request failed.'' w2))))"

section \<open>connect_to_mumble and main\<close>

text \<open>
  In the main thread a \<open>KeyboardInterrupt\<close> can arrive as well; it is no subclass of
  \<open>Exception\<close>.
\<close>

datatype raised = KeyboardInterrupt | Exception exn

text \<open>
  The process state of \<open>main\<close>: the calls made, the log, and the global \<open>mumble\<close>, which is
  unbound (\<open>None\<close>) until the constructor has returned once.  The session created in the
  run of the loop body with counter \<open>i\<close> is session \<open>i\<close>.
\<close>

record process = world +
  mumble_global :: "nat option"

text \<open>
  What the outside does in the run of the loop body with counter \<open>i\<close>: \<open>construct i\<close> is
  what the constructor raises, \<open>handshake i\<close> what registering the callback, \<open>start()\<close> or
  \<open>is_ready()\<close> raise, \<open>idle_sleep i t\<close> what the sleep number \<open>t\<close> of the idle loop
  raises, \<open>retry_sleep i\<close> what the sleep before the next attempt raises; \<open>None\<close> is a
  normal return.  \<open>stop()\<close> returns.
\<close>

record script =
  construct :: "nat \<Rightarrow> raised option"
  handshake :: "nat \<Rightarrow> raised option"
  idle_sleep :: "nat \<Rightarrow> nat \<Rightarrow> raised option"
  retry_sleep :: "nat \<Rightarrow> raised option"

definition retry_attempts :: nat where
  "retry_attempts = 5"

text \<open>Decimal digits of a number, for the f-string of the retry message.\<close>

fun str_nat :: "nat \<Rightarrow> string" where
  "str_nat n =
     (if n < 10 then [char_of (48 + n)]
      else str_nat (n div 10) @ [char_of (48 + n mod 10)])"

declare str_nat.simps [simp del]

text \<open>
  \<open>connect_to_mumble\<close> (source lines 156 to 167): the handler logs an \<open>Exception\<close> and
  raises it again; a \<open>KeyboardInterrupt\<close> passes it by.
\<close>

definition connect_failed :: "raised \<Rightarrow> process \<Rightarrow> raised option \<times> process" where
  "connect_failed r p =
     (case r of
        Exception e \<Rightarrow>
          (Some r, logging ERROR (''Failed to connect to Mumble server: '' @ str_exn e) p)
      | KeyboardInterrupt \<Rightarrow> (Some r, p))"

definition connect_to_mumble :: "script \<Rightarrow> nat \<Rightarrow> process \<Rightarrow> raised option \<times> process" where
  "connect_to_mumble sc i p =
     (let p1 = calling MumbleCreate p
      in case construct sc i of
           Some r \<Rightarrow> connect_failed r p1
         | None \<Rightarrow>
             (let p2 = p1\<lparr>mumble_global := Some i\<rparr>;
                  p3 = calling (MumbleStart i) p2
              in case handshake sc i of
                   Some r \<Rightarrow> connect_failed r p3
                 | None \<Rightarrow>
                     (None,
                      logging INFO
                        (''Connected to Mumble server as '' @ MUMBLE_USERNAME @ ''.'') p3)))"

text \<open>
  The idle loop \<open>while True: time.sleep(1)\<close> (source lines 182 and 183).  It ends only
  when a sleep raises; the result is the number of sleeps that returned and what the
  next one raised.  A loop that sleeps forever has no result.
\<close>

partial_function (option) idle :: "(nat \<Rightarrow> raised option) \<Rightarrow> nat \<Rightarrow> (nat \<times> raised) option" where
  "idle sleep1 t =
     (case sleep1 t of
        Some r \<Rightarrow> Some (t, r)
      | None \<Rightarrow> idle sleep1 (Suc t))"

text \<open>How a run of the loop body ends.\<close>

datatype flow = Continue | Break | Propagate raised

text \<open>The two \<open>except\<close> clauses of \<open>main\<close> (source lines 185 to 196).\<close>

definition except_clauses :: "script \<Rightarrow> nat \<Rightarrow> raised \<Rightarrow> process \<Rightarrow> flow \<times> process" where
  "except_clauses sc attempt r p =
     (case r of
        KeyboardInterrupt \<Rightarrow> (Break, logging INFO ''Bot shutting down...'' p)
      | Exception e \<Rightarrow>
          (let p1 = logging ERROR (''Unexpected error: '' @ str_exn e) p;
               attempt' = attempt + 1
           in if attempt' < retry_attempts
              then
                (let p2 = logging INFO
                            (''Retrying connection... (Attempt '' @ str_nat (attempt' + 1)
                               @ '' of '' @ str_nat retry_attempts @ '')'') p1;
                     p3 = calling (TimeSleep 5) p2
                 in case retry_sleep sc attempt of
                      Some r' \<Rightarrow> (Propagate r', p3)
                    | None \<Rightarrow> (Continue, p3))
              else (Break, logging ERROR ''Max retry attempts reached. Exiting.'' p1)))"

text \<open>
  The \<open>finally\<close> clause (source lines 197 to 199).  Reading the global while it is
  unbound raises \<open>NameError\<close>, which replaces the pending \<open>break\<close> or exception.
\<close>

definition finally_clause :: "flow \<times> process \<Rightarrow> flow \<times> process" where
  "finally_clause fp =
     (case mumble_global (snd fp) of
        None \<Rightarrow>
          (Propagate (Exception (NameError
             (''name '' @ [CHR 0x27] @ ''mumble'' @ [CHR 0x27] @ '' is not defined''))), snd fp)
      | Some i \<Rightarrow> (fst fp, calling (MumbleStop i) (snd fp)))"

text \<open>One run of the loop body (source lines 177 to 199).\<close>

definition loop_body :: "script \<Rightarrow> nat \<Rightarrow> process \<Rightarrow> (flow \<times> process) option" where
  "loop_body sc attempt p =
     (case connect_to_mumble sc attempt p of
        (Some r, p1) \<Rightarrow> Some (finally_clause (except_clauses sc attempt r p1))
      | (None, p1) \<Rightarrow>
          (case idle (idle_sleep sc attempt) 0 of
             None \<Rightarrow> None
           | Some (t, r) \<Rightarrow>
               Some (finally_clause
                 (except_clauses sc attempt r
                    (p1\<lparr>calls := calls p1 @ replicate (Suc t) (TimeSleep 1)\<rparr>)))))"

text \<open>
  The loop \<open>while attempt < retry_attempts\<close>.  The body runs again only from the
  \<open>except Exception\<close> clause, which has added one to the counter.  The result is what
  leaves \<open>main\<close> (\<open>None\<close>: it returns) and the final process state.
\<close>

function main_loop :: "script \<Rightarrow> nat \<Rightarrow> process \<Rightarrow> (raised option \<times> process) option" where
  "main_loop sc attempt p =
     (if attempt < retry_attempts
      then (case loop_body sc attempt p of
              None \<Rightarrow> None
            | Some (Continue, p') \<Rightarrow> main_loop sc (Suc attempt) p'
            | Some (Break, p') \<Rightarrow> Some (None, p')
            | Some (Propagate r, p') \<Rightarrow> Some (Some r, p'))
      else Some (None, p))"
  by pat_completeness auto
termination
  by (relation "measure (\<lambda>(sc, attempt, p). retry_attempts - attempt)") auto

declare main_loop.simps [simp del]

definition main :: "script \<Rightarrow> (raised option \<times> process) option" where
  "main sc = main_loop sc 0 \<lparr>calls = [], logs = [], mumble_global = None\<rparr>"

text \<open>Every session that was started is stopped later in the list of calls.\<close>

fun released :: "call list \<Rightarrow> bool" where
  "released [] = True"
| "released (c # cs) =
     ((case c of MumbleStart i \<Rightarrow> MumbleStop i \<in> set cs | _ \<Rightarrow> True) \<and> released cs)"

section \<open>Example inputs\<close>

text \<open>
  A server with the users bob and Alice and the channels Root and Lounge on which
  every operation succeeds, and a world in which nothing has happened yet.
\<close>

definition example_session :: session where
  "example_session =
     \<lparr>users_find_by_name =
        (\<lambda>n. Inr (if n = ''bob'' then Some 7 else if n = ''Alice'' then Some 3 else None)),
      channels_find_by_name =
        (\<lambda>n. Inr (if n = ''Root'' then Some 0 else if n = ''Lounge'' then Some 5 else None)),
      user_move = (\<lambda>u c. None),
      user_mute = (\<lambda>u. None),
      user_unmute = (\<lambda>u. None),
      user_kick = (\<lambda>u. None),
      send_text_message = (\<lambda>c t. None)\<rparr>"

definition empty_world :: world where
  "empty_world = \<lparr>calls = [], logs = []\<rparr>"

text \<open>A backend that answers every request with status 200 and the JSON document \<open>j\<close>.\<close>

definition backend_returning :: "json \<Rightarrow> requests" where
  "backend_returning j =
     (\<lambda>url body timeout. Inr \<lparr>raise_for_status = None, response_json = Inr j\<rparr>)"

text \<open>
  Three runs of the outside as \<open>main\<close> sees it: a server that refuses every connection,
  a session that connects and is interrupted from the keyboard during its third idle
  sleep, and a constructor that raises.
\<close>

definition refusing :: script where
  "refusing =
     \<lparr>construct = (\<lambda>i. None),
      handshake = (\<lambda>i. Some (Exception (OtherException ''Connection refused''))),
      idle_sleep = (\<lambda>i t. None),
      retry_sleep = (\<lambda>i. None)\<rparr>"

definition interrupted :: script where
  "interrupted =
     \<lparr>construct = (\<lambda>i. None),
      handshake = (\<lambda>i. None),
      idle_sleep = (\<lambda>i t. if t = 2 then Some KeyboardInterrupt else None),
      retry_sleep = (\<lambda>i. None)\<rparr>"

section \<open>Basic facts\<close>

lemma calls_logging [simp]: "calls (logging lv m w) = calls w"
  by (simp add: logging_def)

lemma logs_logging [simp]: "logs (logging lv m w) = logs w @ [(lv, m)]"
  by (simp add: logging_def)

lemma calls_calling [simp]: "calls (calling c w) = calls w @ [c]"
  by (simp add: calling_def)

lemma logs_calling [simp]: "logs (calling c w) = logs w"
  by (simp add: calling_def)

lemma mumble_global_logging [simp]: "mumble_global (logging lv m p) = mumble_global p"
  by (simp add: logging_def)

lemma mumble_global_calling [simp]: "mumble_global (calling c p) = mumble_global p"
  by (simp add: calling_def)

lemma startswith_split: "startswith s p \<Longrightarrow> s = p @ drop (length p) s"
  unfolding startswith_def by (metis append_take_drop_id)

lemma replace_leading:
  "old \<noteq> [] \<Longrightarrow> replace (old @ rest) old new = new @ replace rest old new"
  by (cases old) (simp_all add: startswith_def)

lemma replace_absent: "old \<noteq> [] \<Longrightarrow> \<not> contains s old \<Longrightarrow> replace s old new = s"
  by (induction s) auto

text \<open>
  When the marker stands at the start of the reply and nowhere else, replacing it by
  the empty string removes exactly the first eight characters.
\<close>

lemma replace_single_marker:
  assumes "startswith command ''COMMAND:''"
    and "\<not> contains (drop 8 command) ''COMMAND:''"
  shows "replace command ''COMMAND:'' [] = drop 8 command"
proof -
  define rest where "rest = drop 8 command"
  have "command = ''COMMAND:'' @ drop (length ''COMMAND:'') command"
    by (rule startswith_split [OF assms(1)])
  moreover have "length ''COMMAND:'' = (8::nat)"
    by simp
  ultimately have eq: "command = ''COMMAND:'' @ rest"
    unfolding rest_def by (simp only:)
  have "replace (''COMMAND:'' @ rest) ''COMMAND:'' [] = [] @ replace rest ''COMMAND:'' []"
    by (rule replace_leading) simp
  also have "\<dots> = rest"
    using assms(2) by (simp add: replace_absent rest_def)
  finally have "replace (''COMMAND:'' @ rest) ''COMMAND:'' [] = rest" .
  then have "replace command ''COMMAND:'' [] = rest"
    by (simp only: eq [symmetric])
  then show ?thesis
    by (simp only: rest_def)
qed

section \<open>The command text and its tokens\<close>

text \<open>
  Claim C7: for every reply that starts with the marker \<open>COMMAND:\<close>, the command text
  used for verb and argument extraction is the reply with only the leading marker
  removed and the surrounding whitespace trimmed, and a later occurrence of
  \<open>COMMAND:\<close> stays part of the tokens.  The code removes the marker with
  \<open>str.replace\<close>, which deletes every occurrence.  On the reply
  \<open>COMMAND:/kick COMMAND:bob\<close> the text after the leading marker is
  \<open>/kick COMMAND:bob\<close>, the code works on \<open>/kick bob\<close>, and the user bob is kicked.
\<close>

theorem command_text_loses_inner_marker:
  "startswith ''COMMAND:/kick COMMAND:bob'' ''COMMAND:''
   \<and> strip (drop 8 ''COMMAND:/kick COMMAND:bob'') = ''/kick COMMAND:bob''
   \<and> strip (replace ''COMMAND:/kick COMMAND:bob'' ''COMMAND:'' []) = ''/kick bob''
   \<and> execute_command example_session ''COMMAND:/kick COMMAND:bob'' empty_world =
       (Return (), \<lparr>calls = [UserKick 7], logs = [(INFO, ''Kicked bob.'')]\<rparr>)"
  by code_simp

text \<open>
  Claim C2: for every reply that starts with the marker and whose first token after
  the marker is one of the five verbs, compared without case, with the required
  number of arguments, the matching branch runs with the argument tokens verbatim
  and in order.  On the reply \<open>COMMAND:/mute COMMAND:bob\<close> the tokens after the
  marker are \<open>/mute\<close> and \<open>COMMAND:bob\<close>; the code runs the branch of \<open>/mute\<close> with the
  argument \<open>bob\<close> and mutes that user.  The cause is the one of claim C7.
\<close>

theorem mute_argument_not_verbatim:
  "startswith ''COMMAND:/mute COMMAND:bob'' ''COMMAND:''
   \<and> split (strip (drop 8 ''COMMAND:/mute COMMAND:bob'')) = [''/mute'', ''COMMAND:bob'']
   \<and> execute_command example_session ''COMMAND:/mute COMMAND:bob'' empty_world =
        mute_branch example_session ''bob'' empty_world
   \<and> execute_command example_session ''COMMAND:/mute COMMAND:bob'' empty_world \<noteq>
        mute_branch example_session ''COMMAND:bob'' empty_world
   \<and> calls (snd (execute_command example_session ''COMMAND:/mute COMMAND:bob'' empty_world)) =
        [UserMute 7]"
  by code_simp

section \<open>Invalid commands\<close>

text \<open>
  Claim C3, as stated: every reply that starts with the marker and whose verb is not
  recognized, or whose number of arguments differs from the arity of its verb, \<open>/help\<close>
  with extra arguments included, is answered by the \<open>Invalid command\<close> log entry and
  by no action and no message.  The branch of \<open>/help\<close> tests the verb alone: on
  \<open>COMMAND:/help me\<close> the verb \<open>/help\<close> has one argument, and the help text is sent.
\<close>

theorem help_with_argument_is_executed:
  "startswith ''COMMAND:/help me'' ''COMMAND:''
   \<and> split (strip (drop 8 ''COMMAND:/help me'')) = [''/help'', ''me'']
   \<and> execute_command example_session ''COMMAND:/help me'' empty_world =
       (Return (), \<lparr>calls = [SendTextMessage 0 help_message],
                     logs = [(INFO, ''Displayed help message.'')]\<rparr>)
   \<and> execute_command example_session ''COMMAND:/help me'' empty_world \<noteq>
       (Return (), logging ERROR (''Invalid command: /help me'') empty_world)"
  by code_simp

text \<open>
  Claim C3, amended: for every reply that starts with the marker, holds no further
  occurrence of it, and whose first token after the marker is, without case, not
  \<open>/help\<close> and either none of \<open>/move\<close>, \<open>/mute\<close>, \<open>/unmute\<close>, \<open>/kick\<close> or followed by a
  number of arguments other than 2, 1, 1, 1, \<open>execute_command\<close> logs
  \<open>Invalid command:\<close> with the trimmed text after the marker, returns, and makes no
  call: no moderation action and no message.
\<close>

theorem invalid_command_logged:
  assumes "startswith reply ''COMMAND:''"
    and "\<not> contains (drop 8 reply) ''COMMAND:''"
    and "split (strip (drop 8 reply)) = verb # args"
    and "lower verb \<noteq> ''/help''"
    and "\<not> (lower verb = ''/move'' \<and> length args = 2)"
    and "\<not> (lower verb \<in> {''/mute'', ''/unmute'', ''/kick''} \<and> length args = 1)"
  shows "execute_command mumble reply w =
           (Return (), logging ERROR (''Invalid command: '' @ strip (drop 8 reply)) w)
         \<and> calls (snd (execute_command mumble reply w)) = calls w"
  using assms
  by (auto simp add: execute_command_def execute_command_try_def replace_single_marker)

theorem invalid_command_logged_witness:
  "execute_command example_session ''COMMAND:/mute'' empty_world =
     (Return (), \<lparr>calls = [], logs = [(ERROR, ''Invalid command: /mute'')]\<rparr>)"
proof -
  have 1: "startswith ''COMMAND:/mute'' ''COMMAND:''"
    by code_simp
  have 2: "\<not> contains (drop 8 ''COMMAND:/mute'') ''COMMAND:''"
    by code_simp
  have 3: "split (strip (drop 8 ''COMMAND:/mute'')) = ''/mute'' # []"
    by code_simp
  have 4: "lower ''/mute'' \<noteq> ''/help''"
    by code_simp
  have 5: "\<not> (lower ''/mute'' = ''/move'' \<and> length ([]::string list) = 2)"
    by simp
  have 6: "\<not> (lower ''/mute'' \<in> {''/mute'', ''/unmute'', ''/kick''}
              \<and> length ([]::string list) = 1)"
    by simp
  have 7: "strip ''/mute'' = ''/mute''"
    by code_simp
  show ?thesis
    using invalid_command_logged [OF 1 2 3 4 5 6, of example_session empty_world]
    by (simp add: 7 logging_def empty_world_def)
qed

section \<open>The executor never raises\<close>

text \<open>
  Claim C5: no exception leaves \<open>execute_command\<close>, whatever the command; and a
  \<open>/mute\<close>, \<open>/unmute\<close> or \<open>/kick\<close> whose user lookup returns no handle, or a \<open>/move\<close> whose
  user or channel lookup returns no handle, ends in the \<open>not found\<close> log entry and
  makes no call.  The verb and the names are the tokens as the code extracts them.
\<close>

theorem execute_command_never_raises:
  "fst (execute_command mumble command w) = Return ()
   \<and> (startswith command ''COMMAND:''
        \<and> split (strip (replace command ''COMMAND:'' [])) = [verb, username]
        \<and> lower verb \<in> {''/mute'', ''/unmute'', ''/kick''}
        \<and> users_find_by_name mumble username = Inr None
      \<longrightarrow> execute_command mumble command w =
            (Return (), logging ERROR (''User '' @ username @ '' not found.'') w)
          \<and> calls (snd (execute_command mumble command w)) = calls w)
   \<and> (startswith command ''COMMAND:''
        \<and> split (strip (replace command ''COMMAND:'' [])) = [verb, username, channel]
        \<and> lower verb = ''/move''
        \<and> users_find_by_name mumble username = Inr user
        \<and> channels_find_by_name mumble channel = Inr target_channel
        \<and> (user = None \<or> target_channel = None)
      \<longrightarrow> execute_command mumble command w =
            (Return (),
             logging ERROR
               (''User '' @ username @ '' or channel '' @ channel @ '' not found.'') w)
          \<and> calls (snd (execute_command mumble command w)) = calls w)"
proof (intro conjI impI)
  show "fst (execute_command mumble command w) = Return ()"
    by (simp add: execute_command_def split: prod.splits res.splits)
next
  assume "startswith command ''COMMAND:''
        \<and> split (strip (replace command ''COMMAND:'' [])) = [verb, username]
        \<and> lower verb \<in> {''/mute'', ''/unmute'', ''/kick''}
        \<and> users_find_by_name mumble username = Inr None"
  then show e1: "execute_command mumble command w =
            (Return (), logging ERROR (''User '' @ username @ '' not found.'') w)"
    by (auto simp add: execute_command_def execute_command_try_def mute_branch_def
          unmute_branch_def kick_branch_def)
  show "calls (snd (execute_command mumble command w)) = calls w"
    by (simp add: e1)
next
  assume "startswith command ''COMMAND:''
        \<and> split (strip (replace command ''COMMAND:'' [])) = [verb, username, channel]
        \<and> lower verb = ''/move''
        \<and> users_find_by_name mumble username = Inr user
        \<and> channels_find_by_name mumble channel = Inr target_channel
        \<and> (user = None \<or> target_channel = None)"
  then show e2: "execute_command mumble command w =
            (Return (),
             logging ERROR
               (''User '' @ username @ '' or channel '' @ channel @ '' not found.'') w)"
    by (auto simp add: execute_command_def execute_command_try_def move_branch_def
          split: option.splits)
  show "calls (snd (execute_command mumble command w)) = calls w"
    by (simp add: e2)
qed

theorem execute_command_never_raises_witness:
  "execute_command example_session ''COMMAND:/kick carol'' empty_world =
     (Return (), \<lparr>calls = [], logs = [(ERROR, ''User carol not found.'')]\<rparr>)
   \<and> execute_command example_session ''COMMAND:/move Alice Cellar'' empty_world =
     (Return (), \<lparr>calls = [], logs = [(ERROR, ''User Alice or channel Cellar not found.'')]\<rparr>)"
proof -
  have k: "startswith ''COMMAND:/kick carol'' ''COMMAND:''
        \<and> split (strip (replace ''COMMAND:/kick carol'' ''COMMAND:'' [])) = [''/kick'', ''carol'']
        \<and> lower ''/kick'' \<in> {''/mute'', ''/unmute'', ''/kick''}
        \<and> users_find_by_name example_session ''carol'' = Inr None"
    by code_simp
  have m: "startswith ''COMMAND:/move Alice Cellar'' ''COMMAND:''
        \<and> split (strip (replace ''COMMAND:/move Alice Cellar'' ''COMMAND:'' [])) =
            [''/move'', ''Alice'', ''Cellar'']
        \<and> lower ''/move'' = ''/move''
        \<and> users_find_by_name example_session ''Alice'' = Inr (Some 3)
        \<and> channels_find_by_name example_session ''Cellar'' = Inr None
        \<and> (Some (3::nat) = None \<or> (None::nat option) = None)"
    by code_simp
  from execute_command_never_raises
         [of example_session "''COMMAND:/kick carol''" empty_world "''/kick''" "''carol''"] k
  have 1: "execute_command example_session ''COMMAND:/kick carol'' empty_world =
             (Return (), logging ERROR (''User '' @ ''carol'' @ '' not found.'') empty_world)"
    by blast
  from execute_command_never_raises
         [of example_session "''COMMAND:/move Alice Cellar''" empty_world
             "''/move''" "''Alice''" "''Cellar''" "Some 3" None] m
  have 2: "execute_command example_session ''COMMAND:/move Alice Cellar'' empty_world =
             (Return (),
              logging ERROR (''User '' @ ''Alice'' @ '' or channel '' @ ''Cellar'' @ '' not found.'')
                empty_world)"
    by blast
  from 1 2 show ?thesis
    by (simp add: logging_def empty_world_def)
qed

end
